theory Spec2Isabelle
  imports Complex_Main
begin

section \<open>The Azure DevOps webhook of zerver/webhooks/azuredevops/view.py\<close>

text \<open>
  The view is one straight-line Python function: it reads
  \<^verbatim>\<open>payload['detailedMessage']["markdown"]\<close>, appends it to a fixed preamble and hands
  the text to \<^verbatim>\<open>check_send_webhook_message\<close>. Everything Python does implicitly on
  that line is explicit below: the values a decoded JSON body can be, the exceptions of
  subscripting and of \<^verbatim>\<open>+\<close>, and the call of the collaborator as an entry of a log.
\<close>

subsection \<open>Python values and exceptions\<close>

text \<open>
  What a JSON decoder returns. A dict is the list of its items in insertion order; a
  lookup takes the binding \<open>map_of\<close> finds. The keys of a dict are pairwise distinct,
  which nothing below relies on. A \<open>string\<close> stands for the characters of a Python
  \<^verbatim>\<open>str\<close>: the view only concatenates texts and compares keys. The content of a
  float plays no role.
\<close>

datatype pyval =
    PyNone
  | PyBool bool
  | PyInt int
  | PyFloat real
  | PyStr string
  | PyList "pyval list"
  | PyDict "(string \<times> pyval) list"

text \<open>
  The exceptions that can leave the view: \<open>KeyError\<close> carries the key that was looked up,
  \<open>TypeError\<close> is raised by subscripting or concatenating a value of the wrong type (its
  message differs between Python versions and is left out), \<open>JsonableError\<close> is the
  request framework's error with its message, and \<open>OtherException\<close> stands for whatever
  else a collaborator may raise.
\<close>

datatype exn =
    KeyError string
  | TypeError
  | JsonableError string
  | OtherException string

text \<open>\<^verbatim>\<open>v[key]\<close> for a string key: only a dict accepts it.\<close>

fun subscript :: "pyval \<Rightarrow> string \<Rightarrow> exn + pyval" where
  "subscript (PyDict items) key =
     (case map_of items key of None \<Rightarrow> Inl (KeyError key) | Some v \<Rightarrow> Inr v)"
| "subscript PyNone key = Inl TypeError"
| "subscript (PyBool b) key = Inl TypeError"
| "subscript (PyInt i) key = Inl TypeError"
| "subscript (PyFloat x) key = Inl TypeError"
| "subscript (PyStr s) key = Inl TypeError"
| "subscript (PyList xs) key = Inl TypeError"

text \<open>\<^verbatim>\<open>s + v\<close> for a string \<open>s\<close>: only a string can be appended.\<close>

fun str_add :: "string \<Rightarrow> pyval \<Rightarrow> exn + string" where
  "str_add s (PyStr t) = Inr (s @ t)"
| "str_add s PyNone = Inl TypeError"
| "str_add s (PyBool b) = Inl TypeError"
| "str_add s (PyInt i) = Inl TypeError"
| "str_add s (PyFloat x) = Inl TypeError"
| "str_add s (PyList xs) = Inl TypeError"
| "str_add s (PyDict items) = Inl TypeError"

subsection \<open>Requests, responses and the delivery collaborator\<close>

text \<open>
  A request as the view sees it: its request variables (query string and form fields)
  and its body after JSON decoding, \<open>None\<close> when the body is not JSON.
\<close>

record HttpRequest =
  variables :: "string \<rightharpoonup> string"
  body_json :: "pyval option"

datatype UserProfile = UserProfile nat

record HttpResponse =
  status_code :: nat
  content :: "(string \<times> string) list"

text \<open>
  Modelled from the spec: \<^verbatim>\<open>json_success\<close> (zerver/lib/response.py) is not among the
  sources. The spec describes its result as HTTP 200 with the generic success envelope
  \<^verbatim>\<open>{ "result": "success", "msg": "" }\<close> and no payload data.
\<close>

definition json_success :: HttpResponse where
  "json_success = \<lparr>status_code = 200, content = [(''result'', ''success''), (''msg'', '''')]\<rparr>"

text \<open>
  \<^verbatim>\<open>check_send_webhook_message(request, user_profile, topic, body)\<close> is not among the
  sources either. One invocation of it is a \<open>delivery_call\<close>; the log holds every
  invocation with its outcome, \<open>None\<close> for a normal return and \<open>Some e\<close> for the exception
  it raised. What the collaborator does with a call is a parameter: any function of the
  log so far and the call.
\<close>

record delivery_call =
  call_request :: HttpRequest
  call_user :: UserProfile
  call_topic :: string
  call_body :: string

type_synonym log = "(delivery_call \<times> exn option) list"

type_synonym collaborator = "log \<Rightarrow> delivery_call \<Rightarrow> exn option"

definition check_send_webhook_message ::
  "collaborator \<Rightarrow> HttpRequest \<Rightarrow> UserProfile \<Rightarrow> string \<Rightarrow> string \<Rightarrow> log \<Rightarrow> exn option \<times> log" where
  "check_send_webhook_message deliver request user_profile topic body lg =
     (let c = \<lparr>call_request = request, call_user = user_profile,
                call_topic = topic, call_body = body\<rparr>
      in (deliver lg c, lg @ [(c, deliver lg c)]))"

text \<open>The invocations of the collaborator, and those that returned normally.\<close>

definition calls :: "log \<Rightarrow> delivery_call list" where
  "calls lg = map fst lg"

definition delivered :: "log \<Rightarrow> delivery_call list" where
  "delivered lg = map fst (filter (\<lambda>entry. snd entry = None) lg)"

subsection \<open>The view function\<close>

text \<open>
  \<^verbatim>\<open>api_azuredevops_webhook(request, user_profile, payload, topic)\<close> as written, before
  its decorators: the preamble, the two subscripts and the concatenation in Python's
  evaluation order, the call, the response. An exception ends the function at once and
  leaves the log as it is at that point.
\<close>

definition newline :: string where
  "newline = [CHR 0x0A]"

text \<open>The value of the expression \<^verbatim>\<open>payload['detailedMessage']["markdown"]\<close>.\<close>

definition markdown_value :: "pyval \<Rightarrow> exn + pyval" where
  "markdown_value payload =
     (case subscript payload ''detailedMessage'' of
        Inl e \<Rightarrow> Inl e
      | Inr detailed \<Rightarrow> subscript detailed ''markdown'')"

definition api_azuredevops_webhook ::
  "collaborator \<Rightarrow> HttpRequest \<Rightarrow> UserProfile \<Rightarrow> pyval \<Rightarrow> string \<Rightarrow> log
     \<Rightarrow> (exn + HttpResponse) \<times> log" where
  "api_azuredevops_webhook deliver request user_profile payload topic lg =
     (let body = ''A new build from Azure DevOps! :smile:'' in
      case markdown_value payload of
        Inl e \<Rightarrow> (Inl e, lg)
      | Inr markdown \<Rightarrow>
          (case str_add newline markdown of
             Inl e \<Rightarrow> (Inl e, lg)
           | Inr body_template \<Rightarrow>
               (let body = body @ body_template in
                case check_send_webhook_message deliver request user_profile topic body lg of
                  (Some e, lg') \<Rightarrow> (Inl e, lg')
                | (None, lg') \<Rightarrow> (Inr json_success, lg'))))"

subsection \<open>The decorators\<close>

text \<open>
  Modelled from the spec: \<^verbatim>\<open>REQ\<close> and \<^verbatim>\<open>has_request_variables\<close>
  (zerver/lib/request.py) are not among the sources. The spec describes them as the
  request-validation collaborator: a parameter marked \<^verbatim>\<open>argument_type='body'\<close> is
  the JSON-decoded request body, a body that does not decode is a malformed-payload
  error, a schema the parameter is configured with is checked on the decoded value, and
  any other parameter is the request variable of its name, or its default if the
  request has none. A \<open>REQ\<close> holds what the view passes: the two of this view are
  \<^verbatim>\<open>REQ(argument_type='body')\<close> and \<^verbatim>\<open>REQ(default='coverage')\<close>.
\<close>

record REQ =
  req_argument_type :: "string option"
  req_default :: "string option"
  req_validator :: "(pyval \<Rightarrow> bool) option"

definition payload_REQ :: REQ where
  "payload_REQ = \<lparr>req_argument_type = Some ''body'', req_default = None, req_validator = None\<rparr>"

definition topic_REQ :: REQ where
  "topic_REQ = \<lparr>req_argument_type = None, req_default = Some ''coverage'', req_validator = None\<rparr>"

definition bind_body :: "REQ \<Rightarrow> HttpRequest \<Rightarrow> exn + pyval" where
  "bind_body r request =
     (case body_json request of
        None \<Rightarrow> Inl (JsonableError ''Malformed JSON'')
      | Some v \<Rightarrow>
          (case req_validator r of
             None \<Rightarrow> Inr v
           | Some conforms \<Rightarrow> if conforms v then Inr v else Inl (JsonableError ''Malformed payload'')))"

definition bind_variable :: "REQ \<Rightarrow> string \<Rightarrow> HttpRequest \<Rightarrow> exn + string" where
  "bind_variable r name request =
     (case variables request name of
        Some v \<Rightarrow> Inr v
      | None \<Rightarrow>
          (case req_default r of
             Some d \<Rightarrow> Inr d
           | None \<Rightarrow> Inl (JsonableError (''Missing '' @ name))))"

definition has_request_variables ::
  "(HttpRequest \<Rightarrow> UserProfile \<Rightarrow> pyval \<Rightarrow> string \<Rightarrow> log \<Rightarrow> (exn + HttpResponse) \<times> log)
     \<Rightarrow> HttpRequest \<Rightarrow> UserProfile \<Rightarrow> log \<Rightarrow> (exn + HttpResponse) \<times> log" where
  "has_request_variables view_func request user_profile lg =
     (case bind_body payload_REQ request of
        Inl e \<Rightarrow> (Inl e, lg)
      | Inr payload \<Rightarrow>
          (case bind_variable topic_REQ ''topic'' request of
             Inl e \<Rightarrow> (Inl e, lg)
           | Inr topic \<Rightarrow> view_func request user_profile payload topic lg))"

text \<open>
  Modelled from the spec: \<^verbatim>\<open>api_key_only_webhook_view\<close> (zerver/decorator.py) is not
  among the sources. The spec describes it as the authentication precondition: an
  external check maps the request's API key to the caller's identity, and if it fails
  the view function is never entered. The check itself is the parameter \<open>validate\<close>.
\<close>

definition api_key_only_webhook_view ::
  "(HttpRequest \<Rightarrow> exn + UserProfile)
     \<Rightarrow> (HttpRequest \<Rightarrow> UserProfile \<Rightarrow> log \<Rightarrow> (exn + HttpResponse) \<times> log)
     \<Rightarrow> HttpRequest \<Rightarrow> log \<Rightarrow> (exn + HttpResponse) \<times> log" where
  "api_key_only_webhook_view validate view_func request lg =
     (case validate request of
        Inl e \<Rightarrow> (Inl e, lg)
      | Inr user_profile \<Rightarrow> view_func request user_profile lg)"

text \<open>The view as the URL dispatcher calls it, with both decorators applied.\<close>

definition azuredevops_endpoint ::
  "collaborator \<Rightarrow> (HttpRequest \<Rightarrow> exn + UserProfile) \<Rightarrow> HttpRequest \<Rightarrow> log
     \<Rightarrow> (exn + HttpResponse) \<times> log" where
  "azuredevops_endpoint deliver validate =
     api_key_only_webhook_view validate (has_request_variables (api_azuredevops_webhook deliver))"

subsection \<open>The annotation of the payload parameter\<close>

text \<open>
  The parameter is annotated \<^verbatim>\<open>Dict[str, Iterable[Dict[str, Any]]]\<close>: a dict whose
  values can be iterated and yield dicts only. Iterating a list yields its elements, a
  dict its keys, a string its characters as strings; nothing else is iterable.
\<close>

fun iterate :: "pyval \<Rightarrow> pyval list option" where
  "iterate (PyList xs) = Some xs"
| "iterate (PyDict items) = Some (map (\<lambda>kv. PyStr (fst kv)) items)"
| "iterate (PyStr s) = Some (map (\<lambda>c. PyStr [c]) s)"
| "iterate PyNone = None"
| "iterate (PyBool b) = None"
| "iterate (PyInt i) = None"
| "iterate (PyFloat x) = None"

fun is_dict :: "pyval \<Rightarrow> bool" where
  "is_dict (PyDict items) = True"
| "is_dict PyNone = False"
| "is_dict (PyBool b) = False"
| "is_dict (PyInt i) = False"
| "is_dict (PyFloat x) = False"
| "is_dict (PyStr s) = False"
| "is_dict (PyList xs) = False"

definition iterable_of_dicts :: "pyval \<Rightarrow> bool" where
  "iterable_of_dicts v = (case iterate v of None \<Rightarrow> False | Some xs \<Rightarrow> list_all is_dict xs)"

fun payload_annotation :: "pyval \<Rightarrow> bool" where
  "payload_annotation (PyDict items) = list_all iterable_of_dicts (map snd items)"
| "payload_annotation PyNone = False"
| "payload_annotation (PyBool b) = False"
| "payload_annotation (PyInt i) = False"
| "payload_annotation (PyFloat x) = False"
| "payload_annotation (PyStr s) = False"
| "payload_annotation (PyList xs) = False"

subsection \<open>Concrete requests\<close>

text \<open>
  The payload of the spec's example, requests without a topic and one with a topic, a
  caller, a key check that knows every caller, a collaborator that delivers everything
  and one that rejects everything.
\<close>

definition build42 :: pyval where
  "build42 = PyDict [(''detailedMessage'', PyDict [(''markdown'', PyStr ''Build #42 passed'')])]"

definition build42_verbose :: pyval where
  "build42_verbose =
     PyDict [(''id'', PyInt 9),
             (''detailedMessage'', PyDict [(''markdown'', PyStr ''Build #42 passed''),
                                           (''html'', PyStr ''<p>Build</p>'')])]"

definition request_with :: "pyval \<Rightarrow> HttpRequest" where
  "request_with p = \<lparr>variables = Map.empty, body_json = Some p\<rparr>"

definition plain_request :: HttpRequest where
  "plain_request = request_with build42"

definition topic_request :: HttpRequest where
  "topic_request = \<lparr>variables = [''topic'' \<mapsto> ''ci-results''], body_json = Some build42\<rparr>"

definition build_bot :: UserProfile where
  "build_bot = UserProfile 7"

definition known_key :: "HttpRequest \<Rightarrow> exn + UserProfile" where
  "known_key request = Inr build_bot"

definition accept_all :: collaborator where
  "accept_all lg c = None"

definition reject_all :: collaborator where
  "reject_all lg c = Some (JsonableError ''Stream does not exist'')"

section \<open>What one invocation does\<close>

text \<open>
  The view function case by case: a payload whose markdown is a string reaches the
  collaborator once, and any other payload ends in the exception of the lookup or of the
  concatenation with the log untouched.
\<close>

lemma markdown_value_dict:
  "markdown_value (PyDict items) =
     (case map_of items ''detailedMessage'' of
        None \<Rightarrow> Inl (KeyError ''detailedMessage'')
      | Some detailed \<Rightarrow> subscript detailed ''markdown'')"
  by (simp add: markdown_value_def split: option.split)

lemma webhook_on_string:
  assumes "markdown_value payload = Inr (PyStr m)"
  shows "api_azuredevops_webhook deliver request user_profile payload topic lg =
           (let c = \<lparr>call_request = request, call_user = user_profile, call_topic = topic,
                      call_body = ''A new build from Azure DevOps! :smile:'' @ newline @ m\<rparr>
            in (case deliver lg c of None \<Rightarrow> Inr json_success | Some e \<Rightarrow> Inl e,
                lg @ [(c, deliver lg c)]))"
  using assms
  by (simp add: api_azuredevops_webhook_def check_send_webhook_message_def Let_def
           split: option.split)

lemma webhook_on_lookup_error:
  assumes "markdown_value payload = Inl e"
  shows "api_azuredevops_webhook deliver request user_profile payload topic lg = (Inl e, lg)"
  using assms by (simp add: api_azuredevops_webhook_def)

lemma str_add_not_string:
  assumes "\<And>s. v \<noteq> PyStr s"
  shows "str_add t v = Inl TypeError"
  using assms by (cases v) auto

lemma webhook_on_non_string:
  assumes "markdown_value payload = Inr v" and "\<And>s. v \<noteq> PyStr s"
  shows "api_azuredevops_webhook deliver request user_profile payload topic lg = (Inl TypeError, lg)"
  using assms by (simp add: api_azuredevops_webhook_def str_add_not_string)

text \<open>Every invocation ends in one of four ways.\<close>

lemma webhook_cases:
  fixes deliver request user_profile payload topic lg
  defines "run \<equiv> api_azuredevops_webhook deliver request user_profile payload topic lg"
  obtains
    (lookup_failed) e where "markdown_value payload = Inl e" and "run = (Inl e, lg)"
  | (concat_failed) v where "markdown_value payload = Inr v" and "\<And>s. v \<noteq> PyStr s"
      and "run = (Inl TypeError, lg)"
  | (rejected) m c e where "markdown_value payload = Inr (PyStr m)"
      and "c = \<lparr>call_request = request, call_user = user_profile, call_topic = topic,
                 call_body = ''A new build from Azure DevOps! :smile:'' @ newline @ m\<rparr>"
      and "deliver lg c = Some e" and "run = (Inl e, lg @ [(c, Some e)])"
  | (sent) m c where "markdown_value payload = Inr (PyStr m)"
      and "c = \<lparr>call_request = request, call_user = user_profile, call_topic = topic,
                 call_body = ''A new build from Azure DevOps! :smile:'' @ newline @ m\<rparr>"
      and "deliver lg c = None" and "run = (Inr json_success, lg @ [(c, None)])"
proof (cases "markdown_value payload")
  case (Inl e)
  then show ?thesis
    using lookup_failed by (simp add: run_def webhook_on_lookup_error)
next
  case (Inr v)
  show ?thesis
  proof (cases "\<exists>m. v = PyStr m")
    case False
    with Inr show ?thesis
      using concat_failed [of v] by (simp add: run_def webhook_on_non_string)
  next
    case True
    then obtain m where v: "v = PyStr m" by blast
    define c where "c = \<lparr>call_request = request, call_user = user_profile, call_topic = topic,
        call_body = ''A new build from Azure DevOps! :smile:'' @ newline @ m\<rparr>"
    from Inr v have mv: "markdown_value payload = Inr (PyStr m)" by simp
    show ?thesis
    proof (cases "deliver lg c")
      case None
      with mv show ?thesis
        using sent [of m c] by (simp add: run_def webhook_on_string c_def Let_def)
    next
      case (Some e)
      with mv show ?thesis
        using rejected [of m c e] by (simp add: run_def webhook_on_string c_def Let_def)
    qed
  qed
qed

lemma delivered_append:
  "delivered (lg @ [(c, r)]) = (if r = None then delivered lg @ [c] else delivered lg)"
  by (simp add: delivered_def)

text \<open>The calls an invocation adds to the log: none or one.\<close>

lemma new_calls:
  "drop (length lg)
       (calls (snd (api_azuredevops_webhook deliver request user_profile payload topic lg))) =
     (case markdown_value payload of
        Inl e \<Rightarrow> []
      | Inr v \<Rightarrow> (case str_add newline v of
                   Inl e \<Rightarrow> []
                 | Inr t \<Rightarrow> [\<lparr>call_request = request, call_user = user_profile,
                              call_topic = topic,
                              call_body = ''A new build from Azure DevOps! :smile:'' @ t\<rparr>]))"
proof (cases rule: webhook_cases [where payload = payload and deliver = deliver and lg = lg
      and request = request and user_profile = user_profile and topic = topic])
  case (lookup_failed e)
  then show ?thesis by (simp add: calls_def)
next
  case (concat_failed v)
  then show ?thesis by (simp add: calls_def str_add_not_string)
next
  case (rejected m c e)
  then show ?thesis by (simp add: calls_def)
next
  case (sent m c)
  then show ?thesis by (simp add: calls_def)
qed

text \<open>The bodies of the calls an invocation adds to the log.\<close>

lemma new_bodies:
  "map call_body (drop (length lg)
       (calls (snd (api_azuredevops_webhook deliver request user_profile payload topic lg)))) =
     (case markdown_value payload of
        Inl e \<Rightarrow> []
      | Inr v \<Rightarrow> (case str_add newline v of
                   Inl e \<Rightarrow> []
                 | Inr t \<Rightarrow> [''A new build from Azure DevOps! :smile:'' @ t]))"
  by (simp add: new_calls split: sum.split)

text \<open>
  With a known key and a body that decodes, the decorators hand the decoded body and the
  topic to the view function and add nothing of their own.
\<close>

lemma endpoint_enters_view:
  assumes "validate request = Inr user_profile" and "body_json request = Some payload"
  shows "azuredevops_endpoint deliver validate request lg =
           api_azuredevops_webhook deliver request user_profile payload
             (case variables request ''topic'' of None \<Rightarrow> ''coverage'' | Some t \<Rightarrow> t) lg"
  using assms
  by (simp add: azuredevops_endpoint_def api_key_only_webhook_view_def has_request_variables_def
      bind_body_def payload_REQ_def bind_variable_def topic_REQ_def split: option.split)

lemma endpoint_stops_early:
  assumes "(\<exists>e. validate request = Inl e) \<or> body_json request = None"
  shows "snd (azuredevops_endpoint deliver validate request lg) = lg"
  using assms
  by (auto simp add: azuredevops_endpoint_def api_key_only_webhook_view_def
      has_request_variables_def bind_body_def split: sum.split)

text \<open>
  A payload the view function can read a markdown value from does not have the shape of
  the annotation: its \<open>detailedMessage\<close> is a dict, and iterating a dict yields its
  keys, which are strings.
\<close>

lemma readable_payload_violates_annotation:
  assumes "markdown_value payload = Inr v"
  shows "\<not> payload_annotation payload"
proof -
  from assms obtain items where p: "payload = PyDict items"
    by (cases payload) (simp_all add: markdown_value_def)
  with assms obtain detailed where d: "map_of items ''detailedMessage'' = Some detailed"
    and s: "subscript detailed ''markdown'' = Inr v"
    by (auto simp add: markdown_value_dict split: option.splits)
  from s obtain inner where i: "detailed = PyDict inner"
    by (cases detailed) simp_all
  with s have "map_of inner ''markdown'' = Some v"
    by (simp split: option.splits)
  then have "(''markdown'', v) \<in> set inner"
    by (rule map_of_SomeD)
  then have "PyStr ''markdown'' \<in> set (map (\<lambda>kv. PyStr (fst kv)) inner)"
    by force
  moreover have "\<not> is_dict (PyStr ''markdown'')"
    by simp
  ultimately have "\<not> list_all is_dict (map (\<lambda>kv. PyStr (fst kv)) inner)"
    unfolding list_all_iff by blast
  then have not_iter: "\<not> iterable_of_dicts (PyDict inner)"
    by (simp add: iterable_of_dicts_def)
  from d i have "(''detailedMessage'', PyDict inner) \<in> set items"
    by (simp add: map_of_SomeD)
  then have "PyDict inner \<in> set (map snd items)"
    by force
  with not_iter have "\<not> list_all iterable_of_dicts (map snd items)"
    unfolding list_all_iff by blast
  with p show ?thesis by simp
qed

text \<open>
  The only exceptions the lookup \<^verbatim>\<open>payload['detailedMessage']["markdown"]\<close> can raise:
  a \<open>KeyError\<close> for one of its two keys, or a \<open>TypeError\<close>.
\<close>

lemma subscript_error_kinds:
  assumes "subscript v key = Inl e"
  shows "e = KeyError key \<or> e = TypeError"
  using assms by (cases v) (auto split: option.splits)

lemma lookup_error_kinds:
  assumes "markdown_value payload = Inl e"
  shows "e = KeyError ''detailedMessage'' \<or> e = KeyError ''markdown'' \<or> e = TypeError"
proof (cases "subscript payload ''detailedMessage''")
  case (Inl e')
  with assms have "e' = e" by (simp add: markdown_value_def)
  with Inl show ?thesis using subscript_error_kinds by blast
next
  case (Inr detailed)
  with assms have "subscript detailed ''markdown'' = Inl e" by (simp add: markdown_value_def)
  then show ?thesis using subscript_error_kinds by blast
qed

section \<open>The composed message\<close>

text \<open>
  C1. For every payload that has a key \<open>detailedMessage\<close> whose value has a key
  \<open>markdown\<close> with the text \<open>m\<close>, the view hands the collaborator exactly one new call,
  and its body is the preamble \<^verbatim>\<open>A new build from Azure DevOps! :smile:\<close>, one
  newline and then \<open>m\<close> itself: nothing is escaped, cut or rewritten.
\<close>

theorem composed_body_verbatim:
  assumes "map_of items ''detailedMessage'' = Some (PyDict inner)"
    and "map_of inner ''markdown'' = Some (PyStr m)"
  shows "calls (snd (api_azuredevops_webhook deliver request user_profile (PyDict items) topic lg)) =
           calls lg @ [\<lparr>call_request = request, call_user = user_profile, call_topic = topic,
                         call_body = ''A new build from Azure DevOps! :smile:'' @ [CHR 0x0A] @ m\<rparr>]"
proof -
  from assms have "markdown_value (PyDict items) = Inr (PyStr m)"
    by (simp add: markdown_value_dict)
  then show ?thesis
    by (simp add: webhook_on_string Let_def calls_def newline_def)
qed

theorem composed_body_verbatim_witness:
  "calls (snd (api_azuredevops_webhook accept_all plain_request build_bot
       (PyDict [(''buildNumber'', PyInt 7),
                (''detailedMessage'', PyDict [(''text'', PyStr ''plain''),
                                              (''markdown'', PyStr ''**failed** <b>&amp;</b>'')])])
       ''builds'' [])) =
     [\<lparr>call_request = plain_request, call_user = build_bot, call_topic = ''builds'',
       call_body = ''A new build from Azure DevOps! :smile:'' @ [CHR 0x0A] @ ''**failed** <b>&amp;</b>''\<rparr>]"
  using composed_body_verbatim
    [of "[(''buildNumber'', PyInt 7),
          (''detailedMessage'', PyDict [(''text'', PyStr ''plain''),
                                        (''markdown'', PyStr ''**failed** <b>&amp;</b>'')])]"
        "[(''text'', PyStr ''plain''), (''markdown'', PyStr ''**failed** <b>&amp;</b>'')]"
        "''**failed** <b>&amp;</b>''" accept_all plain_request build_bot "''builds''" "[]"]
  by (simp add: calls_def)

section \<open>Payloads the view cannot read\<close>

text \<open>
  C2, as the code has it. A payload without the key \<open>detailedMessage\<close>, and a payload
  whose \<open>detailedMessage\<close> is a dict without the key \<open>markdown\<close>, end the view function
  with a \<open>KeyError\<close> that carries the missing key, and the collaborator is not invoked:
  the log comes back as it was. The view function builds no error response on this
  path; what leaves it is the exception.
\<close>

theorem missing_field_raises_KeyError:
  "(map_of items ''detailedMessage'' = None \<longrightarrow>
      api_azuredevops_webhook deliver request user_profile (PyDict items) topic lg =
        (Inl (KeyError ''detailedMessage''), lg)) \<and>
   (map_of items ''detailedMessage'' = Some (PyDict inner) \<and> map_of inner ''markdown'' = None \<longrightarrow>
      api_azuredevops_webhook deliver request user_profile (PyDict items) topic lg =
        (Inl (KeyError ''markdown''), lg))"
proof (intro conjI impI)
  assume "map_of items ''detailedMessage'' = None"
  then have "markdown_value (PyDict items) = Inl (KeyError ''detailedMessage'')"
    by (simp add: markdown_value_dict)
  then show "api_azuredevops_webhook deliver request user_profile (PyDict items) topic lg =
      (Inl (KeyError ''detailedMessage''), lg)"
    by (rule webhook_on_lookup_error)
next
  assume "map_of items ''detailedMessage'' = Some (PyDict inner) \<and> map_of inner ''markdown'' = None"
  then have "markdown_value (PyDict items) = Inl (KeyError ''markdown'')"
    by (simp add: markdown_value_dict)
  then show "api_azuredevops_webhook deliver request user_profile (PyDict items) topic lg =
      (Inl (KeyError ''markdown''), lg)"
    by (rule webhook_on_lookup_error)
qed

theorem missing_field_raises_KeyError_witness:
  "api_azuredevops_webhook accept_all (request_with (PyDict [(''id'', PyInt 3)])) build_bot
       (PyDict [(''id'', PyInt 3)]) ''coverage'' [] =
     (Inl (KeyError ''detailedMessage''), []) \<and>
   api_azuredevops_webhook accept_all
       (request_with (PyDict [(''detailedMessage'', PyDict [(''text'', PyStr ''done'')])])) build_bot
       (PyDict [(''detailedMessage'', PyDict [(''text'', PyStr ''done'')])]) ''coverage'' [] =
     (Inl (KeyError ''markdown''), [])"
  using missing_field_raises_KeyError
      [of "[(''id'', PyInt 3)]" accept_all "request_with (PyDict [(''id'', PyInt 3)])" build_bot
          "''coverage''" "[]" "[]"]
    missing_field_raises_KeyError
      [of "[(''detailedMessage'', PyDict [(''text'', PyStr ''done'')])]" accept_all
          "request_with (PyDict [(''detailedMessage'', PyDict [(''text'', PyStr ''done'')])])" build_bot
          "''coverage''" "[]" "[(''text'', PyStr ''done'')]"]
  by simp

text \<open>
  The claim as the spec states it asks for a returned error response. On the empty
  payload the view function returns nothing: it ends with the exception.
\<close>

theorem missing_detailedMessage_is_an_exception:
  "fst (api_azuredevops_webhook accept_all (request_with (PyDict [])) build_bot (PyDict []) ''coverage'' []) =
     Inl (KeyError ''detailedMessage'')"
  by (simp add: api_azuredevops_webhook_def markdown_value_def)

text \<open>
  C10. When \<open>detailedMessage\<close> and its key \<open>markdown\<close> are both present and the value is
  not a string, the concatenation with the newline raises \<open>TypeError\<close> and the
  collaborator is not invoked. And whenever an invocation did reach the collaborator,
  the markdown value of its payload was a string.
\<close>

theorem delivered_only_if_markdown_is_string:
  "(map_of items ''detailedMessage'' = Some (PyDict inner) \<and> map_of inner ''markdown'' = Some v \<and>
      (\<forall>s. v \<noteq> PyStr s) \<longrightarrow>
      api_azuredevops_webhook deliver request user_profile (PyDict items) topic lg =
        (Inl TypeError, lg)) \<and>
   (calls (snd (api_azuredevops_webhook deliver request user_profile payload topic lg)) \<noteq> calls lg \<longrightarrow>
      (\<exists>s. markdown_value payload = Inr (PyStr s)))"
proof (intro conjI impI)
  assume h: "map_of items ''detailedMessage'' = Some (PyDict inner) \<and>
    map_of inner ''markdown'' = Some v \<and> (\<forall>s. v \<noteq> PyStr s)"
  then have "markdown_value (PyDict items) = Inr v"
    by (simp add: markdown_value_dict)
  moreover from h have "\<And>s. v \<noteq> PyStr s" by blast
  ultimately show "api_azuredevops_webhook deliver request user_profile (PyDict items) topic lg =
      (Inl TypeError, lg)"
    by (rule webhook_on_non_string)
next
  assume new: "calls (snd (api_azuredevops_webhook deliver request user_profile payload topic lg))
    \<noteq> calls lg"
  show "\<exists>s. markdown_value payload = Inr (PyStr s)"
  proof (cases rule: webhook_cases [where payload = payload and deliver = deliver and lg = lg
      and request = request and user_profile = user_profile and topic = topic])
    case (lookup_failed e)
    with new show ?thesis by simp
  next
    case (concat_failed v)
    with new show ?thesis by simp
  next
    case (rejected m c e)
    then show ?thesis by blast
  next
    case (sent m c)
    then show ?thesis by blast
  qed
qed

theorem delivered_only_if_markdown_is_string_witness:
  "api_azuredevops_webhook accept_all
       (request_with (PyDict [(''detailedMessage'', PyDict [(''markdown'', PyInt 42)])])) build_bot
       (PyDict [(''detailedMessage'', PyDict [(''markdown'', PyInt 42)])]) ''coverage'' [] =
     (Inl TypeError, []) \<and>
   calls (snd (api_azuredevops_webhook accept_all plain_request build_bot build42 ''coverage'' [])) \<noteq> calls [] \<and>
   (\<exists>s. markdown_value build42 = Inr (PyStr s))"
  using delivered_only_if_markdown_is_string
      [of "[(''detailedMessage'', PyDict [(''markdown'', PyInt 42)])]"
          "[(''markdown'', PyInt 42)]" "PyInt 42" accept_all
          "request_with (PyDict [(''detailedMessage'', PyDict [(''markdown'', PyInt 42)])])" build_bot
          "''coverage''" "[]" build42]
    delivered_only_if_markdown_is_string
      [of "[]" "[]" PyNone accept_all plain_request build_bot "''coverage''" "[]" build42]
  by (simp add: api_azuredevops_webhook_def markdown_value_def build42_def newline_def
      check_send_webhook_message_def accept_all_def calls_def)

section \<open>Deliveries per invocation\<close>

text \<open>
  C5. An invocation that returns a response has made exactly one call of the
  collaborator, which returned normally: one delivery. An invocation that fails has
  delivered nothing: either it never reached the collaborator, or its single call is the
  one that raised, and that exception is the failure. In no case is there a second
  call, so nothing is retried and nothing is delivered in part.
\<close>

theorem delivery_all_or_nothing:
  assumes "api_azuredevops_webhook deliver request user_profile payload topic lg = (res, lg')"
  shows "case res of
           Inr response \<Rightarrow> (\<exists>c. lg' = lg @ [(c, None)] \<and> delivered lg' = delivered lg @ [c])
         | Inl e \<Rightarrow> delivered lg' = delivered lg \<and> (lg' = lg \<or> (\<exists>c. lg' = lg @ [(c, Some e)]))"
proof (cases rule: webhook_cases [where payload = payload and deliver = deliver and lg = lg
      and request = request and user_profile = user_profile and topic = topic])
  case (lookup_failed e)
  with assms show ?thesis by auto
next
  case (concat_failed v)
  with assms show ?thesis by auto
next
  case (rejected m c e)
  with assms have "res = Inl e" and "lg' = lg @ [(c, Some e)]" by simp_all
  then show ?thesis by (simp add: delivered_append)
next
  case (sent m c)
  with assms have "res = Inr json_success" and "lg' = lg @ [(c, None)]" by simp_all
  then show ?thesis by (simp add: delivered_append)
qed

theorem delivery_all_or_nothing_witness:
  "api_azuredevops_webhook accept_all plain_request build_bot build42 ''coverage'' [] =
     (Inr json_success,
      [(\<lparr>call_request = plain_request, call_user = build_bot, call_topic = ''coverage'',
         call_body = ''A new build from Azure DevOps! :smile:'' @ newline @ ''Build #42 passed''\<rparr>, None)]) \<and>
   delivered (snd (api_azuredevops_webhook accept_all plain_request build_bot build42 ''coverage'' [])) =
     [\<lparr>call_request = plain_request, call_user = build_bot, call_topic = ''coverage'',
       call_body = ''A new build from Azure DevOps! :smile:'' @ newline @ ''Build #42 passed''\<rparr>] \<and>
   api_azuredevops_webhook reject_all plain_request build_bot build42 ''coverage'' [] =
     (Inl (JsonableError ''Stream does not exist''),
      [(\<lparr>call_request = plain_request, call_user = build_bot, call_topic = ''coverage'',
         call_body = ''A new build from Azure DevOps! :smile:'' @ newline @ ''Build #42 passed''\<rparr>,
        Some (JsonableError ''Stream does not exist''))]) \<and>
   delivered (snd (api_azuredevops_webhook reject_all plain_request build_bot build42 ''coverage'' [])) = []"
proof -
  have mv: "markdown_value build42 = Inr (PyStr ''Build #42 passed'')"
    by (simp add: markdown_value_def build42_def)
  have ok: "api_azuredevops_webhook accept_all plain_request build_bot build42 ''coverage'' [] =
     (Inr json_success,
      [(\<lparr>call_request = plain_request, call_user = build_bot, call_topic = ''coverage'',
         call_body = ''A new build from Azure DevOps! :smile:'' @ newline @ ''Build #42 passed''\<rparr>, None)])"
    by (simp add: webhook_on_string [OF mv] accept_all_def)
  have bad: "api_azuredevops_webhook reject_all plain_request build_bot build42 ''coverage'' [] =
     (Inl (JsonableError ''Stream does not exist''),
      [(\<lparr>call_request = plain_request, call_user = build_bot, call_topic = ''coverage'',
         call_body = ''A new build from Azure DevOps! :smile:'' @ newline @ ''Build #42 passed''\<rparr>,
        Some (JsonableError ''Stream does not exist''))])"
    by (simp add: webhook_on_string [OF mv] reject_all_def)
  from delivery_all_or_nothing [OF ok] delivery_all_or_nothing [OF bad] ok bad
  show ?thesis by (simp add: delivered_def)
qed

text \<open>
  C8. The view function keeps nothing between invocations and compares nothing: run
  twice in a row on the same request, caller, valid payload and topic, it calls the
  collaborator twice with the same message, so the log after the second run is not the
  log after the first. When the collaborator returns normally both times, both runs
  return the success response and two messages have been delivered.
\<close>

theorem not_idempotent:
  assumes "markdown_value payload = Inr (PyStr m)"
    and "api_azuredevops_webhook deliver request user_profile payload topic lg = (res1, lg1)"
    and "api_azuredevops_webhook deliver request user_profile payload topic lg1 = (res2, lg2)"
    and "c = \<lparr>call_request = request, call_user = user_profile, call_topic = topic,
               call_body = ''A new build from Azure DevOps! :smile:'' @ [CHR 0x0A] @ m\<rparr>"
  shows "calls lg2 = calls lg @ [c, c] \<and> lg2 \<noteq> lg1 \<and>
         (deliver lg c = None \<and> deliver lg1 c = None \<longrightarrow>
            res1 = Inr json_success \<and> res2 = Inr json_success \<and>
            delivered lg2 = delivered lg @ [c, c])"
proof -
  from assms(1,2,4) have first: "lg1 = lg @ [(c, deliver lg c)]"
    and r1: "res1 = (case deliver lg c of None \<Rightarrow> Inr json_success | Some e \<Rightarrow> Inl e)"
    by (simp_all add: webhook_on_string Let_def newline_def)
  from assms(1,3,4) have second: "lg2 = lg1 @ [(c, deliver lg1 c)]"
    and r2: "res2 = (case deliver lg1 c of None \<Rightarrow> Inr json_success | Some e \<Rightarrow> Inl e)"
    by (simp_all add: webhook_on_string Let_def newline_def)
  from first second have "calls lg2 = calls lg @ [c, c]"
    by (simp add: calls_def)
  moreover from second have "lg2 \<noteq> lg1" by simp
  moreover have "deliver lg c = None \<and> deliver lg1 c = None \<longrightarrow>
      res1 = Inr json_success \<and> res2 = Inr json_success \<and> delivered lg2 = delivered lg @ [c, c]"
  proof
    assume "deliver lg c = None \<and> deliver lg1 c = None"
    then have a: "deliver lg c = None" and b: "deliver lg1 c = None" by simp_all
    from a first have "delivered lg1 = delivered lg @ [c]"
      by (simp add: delivered_append)
    with b second have "delivered lg2 = delivered lg @ [c, c]"
      by (simp add: delivered_append)
    with a b r1 r2 show "res1 = Inr json_success \<and> res2 = Inr json_success \<and>
        delivered lg2 = delivered lg @ [c, c]"
      by simp
  qed
  ultimately show ?thesis by blast
qed

theorem not_idempotent_witness:
  "calls (snd (api_azuredevops_webhook accept_all plain_request build_bot build42 ''coverage''
       (snd (api_azuredevops_webhook accept_all plain_request build_bot build42 ''coverage'' [])))) =
     [\<lparr>call_request = plain_request, call_user = build_bot, call_topic = ''coverage'',
       call_body = ''A new build from Azure DevOps! :smile:'' @ [CHR 0x0A] @ ''Build #42 passed''\<rparr>,
      \<lparr>call_request = plain_request, call_user = build_bot, call_topic = ''coverage'',
       call_body = ''A new build from Azure DevOps! :smile:'' @ [CHR 0x0A] @ ''Build #42 passed''\<rparr>] \<and>
   delivered (snd (api_azuredevops_webhook accept_all plain_request build_bot build42 ''coverage''
       (snd (api_azuredevops_webhook accept_all plain_request build_bot build42 ''coverage'' [])))) =
     [\<lparr>call_request = plain_request, call_user = build_bot, call_topic = ''coverage'',
       call_body = ''A new build from Azure DevOps! :smile:'' @ [CHR 0x0A] @ ''Build #42 passed''\<rparr>,
      \<lparr>call_request = plain_request, call_user = build_bot, call_topic = ''coverage'',
       call_body = ''A new build from Azure DevOps! :smile:'' @ [CHR 0x0A] @ ''Build #42 passed''\<rparr>]"
proof -
  define c where "c = \<lparr>call_request = plain_request, call_user = build_bot, call_topic = ''coverage'',
      call_body = ''A new build from Azure DevOps! :smile:'' @ [CHR 0x0A] @ ''Build #42 passed''\<rparr>"
  have mv: "markdown_value build42 = Inr (PyStr ''Build #42 passed'')"
    by (simp add: markdown_value_def build42_def)
  obtain res1 lg1 where one:
    "api_azuredevops_webhook accept_all plain_request build_bot build42 ''coverage'' [] = (res1, lg1)"
    by (cases "api_azuredevops_webhook accept_all plain_request build_bot build42 ''coverage'' []")
  obtain res2 lg2 where two:
    "api_azuredevops_webhook accept_all plain_request build_bot build42 ''coverage'' lg1 = (res2, lg2)"
    by (cases "api_azuredevops_webhook accept_all plain_request build_bot build42 ''coverage'' lg1")
  from not_idempotent [OF mv one two c_def]
  have "calls lg2 = [c, c]" and "delivered lg2 = [c, c]"
    by (simp_all add: accept_all_def delivered_def calls_def)
  with one two show ?thesis by (simp add: c_def)
qed

section \<open>What the message depends on\<close>

text \<open>
  C9. The body handed to the collaborator is a function of the value at
  \<^verbatim>\<open>payload['detailedMessage']["markdown"]\<close> alone. Take two invocations with any
  requests, callers, topics, logs and collaborators, and payloads that agree on that
  value: the bodies of the calls they add are the same.
\<close>

theorem body_depends_only_on_markdown:
  assumes "markdown_value payload1 = markdown_value payload2"
  shows "map call_body (drop (length lg1)
           (calls (snd (api_azuredevops_webhook deliver1 request1 user1 payload1 topic1 lg1)))) =
         map call_body (drop (length lg2)
           (calls (snd (api_azuredevops_webhook deliver2 request2 user2 payload2 topic2 lg2))))"
  by (simp only: new_bodies assms)

theorem body_depends_only_on_markdown_witness:
  "markdown_value build42 = markdown_value build42_verbose \<and>
   map call_body (drop (length ([]::log))
       (calls (snd (api_azuredevops_webhook accept_all plain_request build_bot build42 ''coverage'' [])))) =
     [''A new build from Azure DevOps! :smile:'' @ [CHR 0x0A] @ ''Build #42 passed''] \<and>
   map call_body (drop (length [(\<lparr>call_request = plain_request, call_user = build_bot,
                                     call_topic = ''old'', call_body = ''earlier''\<rparr>, None::exn option)])
       (calls (snd (api_azuredevops_webhook reject_all topic_request (UserProfile 8) build42_verbose
                      ''ci-results''
                      [(\<lparr>call_request = plain_request, call_user = build_bot,
                          call_topic = ''old'', call_body = ''earlier''\<rparr>, None)])))) =
     [''A new build from Azure DevOps! :smile:'' @ [CHR 0x0A] @ ''Build #42 passed'']"
proof -
  have same: "markdown_value build42 = markdown_value build42_verbose"
    by (simp add: markdown_value_def build42_def build42_verbose_def)
  have one: "map call_body (drop (length ([]::log))
       (calls (snd (api_azuredevops_webhook accept_all plain_request build_bot build42 ''coverage'' [])))) =
     [''A new build from Azure DevOps! :smile:'' @ [CHR 0x0A] @ ''Build #42 passed'']"
    by (simp add: api_azuredevops_webhook_def markdown_value_def build42_def newline_def
        check_send_webhook_message_def accept_all_def calls_def)
  from body_depends_only_on_markdown [OF same, where ?lg1.0 = "[]" and ?deliver1.0 = accept_all
      and ?request1.0 = plain_request and ?user1.0 = build_bot and ?topic1.0 = "''coverage''"
      and ?lg2.0 = "[(\<lparr>call_request = plain_request, call_user = build_bot,
          call_topic = ''old'', call_body = ''earlier''\<rparr>, None)]"
      and ?deliver2.0 = reject_all and ?request2.0 = topic_request and ?user2.0 = "UserProfile 8"
      and ?topic2.0 = "''ci-results''"] one same
  show ?thesis by simp
qed

section \<open>The response\<close>

text \<open>
  C7, as the code has it. The view function returns a response exactly when its call of
  the collaborator returned normally, and that response is \<open>json_success\<close>: HTTP 200
  with the envelope result = success, msg = empty, and no data. On every failure it
  returns no response at all: it ends with an exception. Either the payload could not be
  read, the collaborator was not called, and the exception is the \<open>KeyError\<close> of the
  missing key \<open>detailedMessage\<close> or \<open>markdown\<close>, or a \<open>TypeError\<close>; or the single call
  of the collaborator raised, and the exception is the one it raised, unchanged.
\<close>

theorem response_only_on_success:
  assumes "api_azuredevops_webhook deliver request user_profile payload topic lg = (res, lg')"
  shows "((\<exists>c. lg' = lg @ [(c, None)]) \<longleftrightarrow> res = Inr json_success) \<and>
         status_code json_success = 200 \<and>
         content json_success = [(''result'', ''success''), (''msg'', '''')] \<and>
         (res \<noteq> Inr json_success \<longrightarrow>
            (\<exists>e. res = Inl e \<and>
               (lg' = lg \<and>
                  (e = KeyError ''detailedMessage'' \<or> e = KeyError ''markdown'' \<or> e = TypeError) \<or>
                (\<exists>c. lg' = lg @ [(c, Some e)] \<and> deliver lg c = Some e))))"
proof (cases rule: webhook_cases [where payload = payload and deliver = deliver and lg = lg
      and request = request and user_profile = user_profile and topic = topic])
  case (lookup_failed e)
  with assms have "res = Inl e" and "lg' = lg" by simp_all
  moreover from lookup_failed(1)
  have "e = KeyError ''detailedMessage'' \<or> e = KeyError ''markdown'' \<or> e = TypeError"
    by (rule lookup_error_kinds)
  ultimately show ?thesis by (auto simp add: json_success_def)
next
  case (concat_failed v)
  with assms have "res = Inl TypeError" and "lg' = lg" by simp_all
  then show ?thesis by (simp add: json_success_def)
next
  case (rejected m c e)
  with assms have "res = Inl e" and "lg' = lg @ [(c, Some e)]" by simp_all
  with rejected(3) show ?thesis by (simp add: json_success_def)
next
  case (sent m c)
  with assms have "res = Inr json_success" and "lg' = lg @ [(c, None)]" by simp_all
  then show ?thesis by (simp add: json_success_def)
qed

theorem response_only_on_success_witness:
  "fst (api_azuredevops_webhook accept_all plain_request build_bot build42 ''coverage'' []) =
     Inr \<lparr>status_code = 200, content = [(''result'', ''success''), (''msg'', '''')]\<rparr> \<and>
   fst (api_azuredevops_webhook reject_all plain_request build_bot build42 ''coverage'' []) =
     Inl (JsonableError ''Stream does not exist'') \<and>
   api_azuredevops_webhook accept_all (request_with (PyDict [(''detailedMessage'', PyDict [])]))
       build_bot (PyDict [(''detailedMessage'', PyDict [])]) ''coverage'' [] =
     (Inl (KeyError ''markdown''), [])"
proof -
  obtain res lg' where ok:
    "api_azuredevops_webhook accept_all plain_request build_bot build42 ''coverage'' [] = (res, lg')"
    by (cases "api_azuredevops_webhook accept_all plain_request build_bot build42 ''coverage'' []")
  then have "\<exists>c. lg' = [] @ [(c, None)]"
    by (auto simp add: api_azuredevops_webhook_def markdown_value_def build42_def
        check_send_webhook_message_def accept_all_def)
  with response_only_on_success [OF ok] have "res = Inr json_success" by blast
  moreover have "fst (api_azuredevops_webhook reject_all plain_request build_bot build42 ''coverage'' []) =
     Inl (JsonableError ''Stream does not exist'')"
    by (simp add: api_azuredevops_webhook_def markdown_value_def build42_def
        check_send_webhook_message_def reject_all_def)
  moreover have "api_azuredevops_webhook accept_all
       (request_with (PyDict [(''detailedMessage'', PyDict [])]))
       build_bot (PyDict [(''detailedMessage'', PyDict [])]) ''coverage'' [] =
     (Inl (KeyError ''markdown''), [])"
    by (simp add: api_azuredevops_webhook_def markdown_value_def)
  ultimately show ?thesis using ok by (simp add: json_success_def)
qed

text \<open>
  The claim as the spec states it asks for an error envelope with a message and a code
  on failure. On a payload whose markdown is a list the view function returns no
  envelope: it ends with a \<open>TypeError\<close>.
\<close>

theorem list_markdown_is_an_exception:
  "api_azuredevops_webhook accept_all
       (request_with (PyDict [(''detailedMessage'', PyDict [(''markdown'', PyList [PyStr ''a''])])]))
       build_bot (PyDict [(''detailedMessage'', PyDict [(''markdown'', PyList [PyStr ''a''])])])
       ''coverage'' [] =
     (Inl TypeError, [])"
  by (simp add: api_azuredevops_webhook_def markdown_value_def)

section \<open>The topic\<close>

text \<open>
  C3. A request with a known API key, a valid payload and no \<open>topic\<close> variable makes
  the view call the collaborator once, with the topic \<^verbatim>\<open>coverage\<close> and the composed
  body, and when the collaborator returns normally the response is the success
  envelope. The instance below is the payload of the spec's example, whose body is the
  preamble, a newline and \<^verbatim>\<open>Build #42 passed\<close>.
\<close>

theorem default_topic_is_coverage:
  assumes "validate request = Inr user_profile"
    and "body_json request = Some (PyDict items)"
    and "map_of items ''detailedMessage'' = Some (PyDict inner)"
    and "map_of inner ''markdown'' = Some (PyStr m)"
    and "variables request ''topic'' = None"
    and "c = \<lparr>call_request = request, call_user = user_profile, call_topic = ''coverage'',
               call_body = ''A new build from Azure DevOps! :smile:'' @ [CHR 0x0A] @ m\<rparr>"
  shows "calls (snd (azuredevops_endpoint deliver validate request lg)) = calls lg @ [c] \<and>
         (deliver lg c = None \<longrightarrow>
            fst (azuredevops_endpoint deliver validate request lg) = Inr json_success)"
proof -
  from assms(3,4) have mv: "markdown_value (PyDict items) = Inr (PyStr m)"
    by (simp add: markdown_value_dict)
  from assms(1,2,5) have "azuredevops_endpoint deliver validate request lg =
      api_azuredevops_webhook deliver request user_profile (PyDict items) ''coverage'' lg"
    by (simp add: endpoint_enters_view)
  with mv assms(6) have "azuredevops_endpoint deliver validate request lg =
      (case deliver lg c of None \<Rightarrow> Inr json_success | Some e \<Rightarrow> Inl e, lg @ [(c, deliver lg c)])"
    by (simp add: webhook_on_string Let_def newline_def)
  then show ?thesis by (simp add: calls_def)
qed

theorem default_topic_is_coverage_witness:
  "calls (snd (azuredevops_endpoint accept_all known_key plain_request [])) =
     [\<lparr>call_request = plain_request, call_user = build_bot, call_topic = ''coverage'',
       call_body = ''A new build from Azure DevOps! :smile:'' @ [CHR 0x0A] @ ''Build #42 passed''\<rparr>] \<and>
   fst (azuredevops_endpoint accept_all known_key plain_request []) = Inr json_success"
  using default_topic_is_coverage
      [where validate = known_key and request = plain_request and user_profile = build_bot
         and items = "[(''detailedMessage'', PyDict [(''markdown'', PyStr ''Build #42 passed'')])]"
         and inner = "[(''markdown'', PyStr ''Build #42 passed'')]" and m = "''Build #42 passed''"
         and deliver = accept_all and lg = "[]", OF _ _ _ _ _ refl]
  by (simp add: known_key_def plain_request_def request_with_def build42_def accept_all_def
      calls_def)

text \<open>
  C4. When the request supplies a \<open>topic\<close> variable, every call the view adds to the log
  carries exactly that text as its topic, and with a known API key and a valid payload
  there is exactly one such call.
\<close>

theorem supplied_topic_is_used:
  assumes "variables request ''topic'' = Some t"
  shows "(\<forall>c \<in> set (drop (length lg) (calls (snd (azuredevops_endpoint deliver validate request lg)))).
            call_topic c = t) \<and>
         (validate request = Inr user_profile \<and> body_json request = Some (PyDict items) \<and>
          map_of items ''detailedMessage'' = Some (PyDict inner) \<and>
          map_of inner ''markdown'' = Some (PyStr m) \<longrightarrow>
            calls (snd (azuredevops_endpoint deliver validate request lg)) =
              calls lg @ [\<lparr>call_request = request, call_user = user_profile, call_topic = t,
                            call_body = ''A new build from Azure DevOps! :smile:'' @ [CHR 0x0A] @ m\<rparr>])"
proof (intro conjI impI)
  show "\<forall>c \<in> set (drop (length lg) (calls (snd (azuredevops_endpoint deliver validate request lg)))).
      call_topic c = t"
  proof (cases "validate request")
    case (Inl e)
    then show ?thesis by (simp add: endpoint_stops_early calls_def)
  next
    case (Inr u)
    show ?thesis
    proof (cases "body_json request")
      case None
      then show ?thesis by (simp add: endpoint_stops_early calls_def)
    next
      case (Some payload)
      with Inr assms have "azuredevops_endpoint deliver validate request lg =
          api_azuredevops_webhook deliver request u payload t lg"
        by (simp add: endpoint_enters_view)
      then show ?thesis
        by (auto simp add: new_calls split: sum.splits)
    qed
  qed
next
  assume h: "validate request = Inr user_profile \<and> body_json request = Some (PyDict items) \<and>
    map_of items ''detailedMessage'' = Some (PyDict inner) \<and>
    map_of inner ''markdown'' = Some (PyStr m)"
  then have mv: "markdown_value (PyDict items) = Inr (PyStr m)"
    by (simp add: markdown_value_dict)
  from h assms have "azuredevops_endpoint deliver validate request lg =
      api_azuredevops_webhook deliver request user_profile (PyDict items) t lg"
    by (simp add: endpoint_enters_view)
  with mv show "calls (snd (azuredevops_endpoint deliver validate request lg)) =
      calls lg @ [\<lparr>call_request = request, call_user = user_profile, call_topic = t,
                    call_body = ''A new build from Azure DevOps! :smile:'' @ [CHR 0x0A] @ m\<rparr>]"
    by (simp add: webhook_on_string Let_def newline_def calls_def)
qed

theorem supplied_topic_is_used_witness:
  "variables topic_request ''topic'' = Some ''ci-results'' \<and>
   calls (snd (azuredevops_endpoint accept_all known_key topic_request [])) =
     [\<lparr>call_request = topic_request, call_user = build_bot, call_topic = ''ci-results'',
       call_body = ''A new build from Azure DevOps! :smile:'' @ [CHR 0x0A] @ ''Build #42 passed''\<rparr>]"
  using supplied_topic_is_used
      [where request = topic_request and t = "''ci-results''" and validate = known_key
         and user_profile = build_bot
         and items = "[(''detailedMessage'', PyDict [(''markdown'', PyStr ''Build #42 passed'')])]"
         and inner = "[(''markdown'', PyStr ''Build #42 passed'')]" and m = "''Build #42 passed''"
         and deliver = accept_all and lg = "[]"]
  by (simp add: known_key_def topic_request_def build42_def calls_def)

section \<open>Where the payload is checked\<close>

text \<open>
  C6, as the code has it. The payload parameter is \<^verbatim>\<open>REQ(argument_type='body')\<close>
  with no schema: a body that decodes reaches the view function as it is, whatever its
  shape. "A mapping of string to an iterable of mappings" is the parameter's annotation,
  which nothing checks, and no payload the view succeeds on has that shape. That
  \<open>detailedMessage\<close> and \<open>markdown\<close> are present is checked only when the view function
  reads them: the exception of that lookup is what the request ends with.
\<close>

theorem payload_checked_only_at_use:
  assumes "validate request = Inr user_profile" and "body_json request = Some payload"
  shows "req_validator payload_REQ = None \<and>
         azuredevops_endpoint deliver validate request lg =
           api_azuredevops_webhook deliver request user_profile payload
             (case variables request ''topic'' of None \<Rightarrow> ''coverage'' | Some t \<Rightarrow> t) lg \<and>
         (\<forall>e. markdown_value payload = Inl e \<longrightarrow>
            azuredevops_endpoint deliver validate request lg = (Inl e, lg)) \<and>
         ((\<exists>response. fst (azuredevops_endpoint deliver validate request lg) = Inr response) \<longrightarrow>
            \<not> payload_annotation payload)"
proof (intro conjI allI impI)
  show "req_validator payload_REQ = None"
    by (simp add: payload_REQ_def)
next
  show enter: "azuredevops_endpoint deliver validate request lg =
      api_azuredevops_webhook deliver request user_profile payload
        (case variables request ''topic'' of None \<Rightarrow> ''coverage'' | Some t \<Rightarrow> t) lg"
    using assms by (rule endpoint_enters_view)
  {
    fix e
    assume "markdown_value payload = Inl e"
    with enter show "azuredevops_endpoint deliver validate request lg = (Inl e, lg)"
      by (simp add: webhook_on_lookup_error)
  }
  assume "\<exists>response. fst (azuredevops_endpoint deliver validate request lg) = Inr response"
  then obtain response where ok:
    "fst (api_azuredevops_webhook deliver request user_profile payload
        (case variables request ''topic'' of None \<Rightarrow> ''coverage'' | Some t \<Rightarrow> t) lg) = Inr response"
    using enter by auto
  have "\<exists>m. markdown_value payload = Inr (PyStr m)"
  proof (cases rule: webhook_cases [where payload = payload and deliver = deliver and lg = lg
        and request = request and user_profile = user_profile
        and topic = "case variables request ''topic'' of None \<Rightarrow> ''coverage'' | Some t \<Rightarrow> t"])
    case (lookup_failed e)
    with ok show ?thesis by simp
  next
    case (concat_failed v)
    with ok show ?thesis by simp
  next
    case (rejected m c e)
    then show ?thesis by blast
  next
    case (sent m c)
    then show ?thesis by blast
  qed
  then show "\<not> payload_annotation payload"
    using readable_payload_violates_annotation by blast
qed

theorem payload_checked_only_at_use_witness:
  "payload_annotation (PyDict [(''detailedMessage'', PyList [PyDict [(''markdown'', PyStr ''x'')]])]) \<and>
   azuredevops_endpoint accept_all known_key
       (request_with (PyDict [(''detailedMessage'', PyList [PyDict [(''markdown'', PyStr ''x'')]])])) [] =
     (Inl TypeError, []) \<and>
   payload_annotation (PyDict [(''builds'', PyList [])]) \<and>
   azuredevops_endpoint accept_all known_key (request_with (PyDict [(''builds'', PyList [])])) [] =
     (Inl (KeyError ''detailedMessage''), [])"
  using payload_checked_only_at_use
      [where validate = known_key and user_profile = build_bot and deliver = accept_all and lg = "[]"
         and payload = "PyDict [(''detailedMessage'', PyList [PyDict [(''markdown'', PyStr ''x'')]])]"
         and request = "request_with (PyDict [(''detailedMessage'', PyList [PyDict [(''markdown'', PyStr ''x'')]])])"]
    payload_checked_only_at_use
      [where validate = known_key and user_profile = build_bot and deliver = accept_all and lg = "[]"
         and payload = "PyDict [(''builds'', PyList [])]"
         and request = "request_with (PyDict [(''builds'', PyList [])])"]
  by (simp add: known_key_def request_with_def markdown_value_def iterable_of_dicts_def
      api_azuredevops_webhook_def)

text \<open>
  The claim as the spec states it has the body validated against the shape "a mapping of
  string to an iterable of mappings". The payload of the spec's own example does not
  have that shape, and the request that carries it is delivered.
\<close>

theorem annotation_is_not_enforced:
  "\<not> payload_annotation build42 \<and>
   azuredevops_endpoint accept_all known_key plain_request [] =
     (Inr json_success,
      [(\<lparr>call_request = plain_request, call_user = build_bot, call_topic = ''coverage'',
         call_body = ''A new build from Azure DevOps! :smile:'' @ [CHR 0x0A] @ ''Build #42 passed''\<rparr>,
        None)])"
  by (simp add: build42_def iterable_of_dicts_def azuredevops_endpoint_def
      api_key_only_webhook_view_def has_request_variables_def bind_body_def payload_REQ_def
      bind_variable_def topic_REQ_def known_key_def plain_request_def request_with_def
      api_azuredevops_webhook_def markdown_value_def newline_def
      check_send_webhook_message_def accept_all_def)

end
